theory Spec2Isabelle
  imports Main "HOL-Library.AList" "HOL-Library.Sublist"
begin

section \<open>Strings\<close>

text \<open>
  A Python \<open>str\<close> is a sequence of Unicode code points, and the parser slices and
  compares by code point; a character is therefore modelled by its code point, a
  natural number, and a string by a list of them.  \<open>lit\<close> turns an ASCII literal
  into such a string.
\<close>

type_synonym str = "nat list"

definition lit :: "string \<Rightarrow> str" where
  "lit s = map of_char s"

abbreviation LF :: nat where "LF \<equiv> 10"
abbreviation CR :: nat where "CR \<equiv> 13"
abbreviation SPC :: nat where "SPC \<equiv> 32"
abbreviation QUOTE :: nat where "QUOTE \<equiv> 34"
abbreviation DOT :: nat where "DOT \<equiv> 46"
abbreviation SLASH :: nat where "SLASH \<equiv> 47"
abbreviation LT :: nat where "LT \<equiv> 60"
abbreviation EQUALS :: nat where "EQUALS \<equiv> 61"
abbreviation GT :: nat where "GT \<equiv> 62"

text \<open>
  \<open>str.isspace\<close>, which decides what \<open>str.strip()\<close> removes and what the regular
  expression class \<open>\s\<close> matches on a \<open>str\<close> pattern: the characters 9 to 13,
  28 to 32, U+0085, U+00A0, U+1680, U+2000 to U+200A, U+2028, U+2029, U+202F,
  U+205F and U+3000.
\<close>

definition isspace :: "nat \<Rightarrow> bool" where
  "isspace c \<longleftrightarrow>
     (9 \<le> c \<and> c \<le> 13) \<or> (28 \<le> c \<and> c \<le> 32) \<or> c = 133 \<or> c = 160 \<or> c = 5760 \<or>
     (8192 \<le> c \<and> c \<le> 8202) \<or> c = 8232 \<or> c = 8233 \<or> c = 8239 \<or> c = 8287 \<or> c = 12288"

text \<open>
  The classes \<open>\w\<close> and \<open>\d\<close> of \<open>re\<close> consult the interpreter's Unicode database
  above ASCII (alphanumeric characters, decimal digits).  The database is not part of
  the repository; the model takes its two classifications as a parameter, used for
  code points from 128 on only.
\<close>

record ucd =
  alnum_above :: "nat \<Rightarrow> bool"
  decimal_above :: "nat \<Rightarrow> bool"

definition re_w :: "ucd \<Rightarrow> nat \<Rightarrow> bool" where
  "re_w U c \<longleftrightarrow>
     (if c < 128
      then (48 \<le> c \<and> c \<le> 57) \<or> (65 \<le> c \<and> c \<le> 90) \<or> c = 95 \<or> (97 \<le> c \<and> c \<le> 122)
      else alnum_above U c)"

definition re_d :: "ucd \<Rightarrow> nat \<Rightarrow> bool" where
  "re_d U c \<longleftrightarrow> (if c < 128 then 48 \<le> c \<and> c \<le> 57 else decimal_above U c)"

text \<open>A database that classifies nothing above ASCII, for closed examples.\<close>

definition ascii_only :: ucd where
  "ascii_only = \<lparr>alnum_above = (\<lambda>c. False), decimal_above = (\<lambda>c. False)\<rparr>"

definition strip :: "str \<Rightarrow> str" where
  "strip s = rev (dropWhile isspace (rev (dropWhile isspace s)))"

text \<open>\<open>sub in s\<close>, and \<open>s.split(sep, 1)\<close> where \<open>sep\<close> occurs: the text before the first
  occurrence and the text after it.\<close>

fun partition_at :: "str \<Rightarrow> str \<Rightarrow> (str \<times> str) option" where
  "partition_at sep [] = (if sep = [] then Some ([], []) else None)"
| "partition_at sep (c # cs) =
     (if prefix sep (c # cs) then Some ([], drop (length sep) (c # cs))
      else map_option (\<lambda>(a, b). (c # a, b)) (partition_at sep cs))"

definition contains :: "str \<Rightarrow> str \<Rightarrow> bool" where
  "contains sub s \<longleftrightarrow> partition_at sub s \<noteq> None"

text \<open>\<open>s.split("\n")\<close>: split at every line feed; the result is never empty.\<close>

fun split_lines :: "str \<Rightarrow> str list" where
  "split_lines [] = [[]]"
| "split_lines (c # cs) =
     (if c = LF then [] # split_lines cs
      else (case split_lines cs of [] \<Rightarrow> [[c]] | l # ls \<Rightarrow> (c # l) # ls))"

text \<open>\<open>s.split("\n\n")\<close>: split at every occurrence of two line feeds, found from
  left to right without overlap.\<close>

fun split_paragraphs :: "str \<Rightarrow> str list" where
  "split_paragraphs (a # b # cs) =
     (if a = LF \<and> b = LF then [] # split_paragraphs cs
      else (case split_paragraphs (b # cs) of [] \<Rightarrow> [[a]] | p # ps \<Rightarrow> (a # p) # ps))"
| "split_paragraphs s = [s]"

text \<open>\<open>sep.join(parts)\<close>.\<close>

fun join :: "str \<Rightarrow> str list \<Rightarrow> str" where
  "join sep [] = []"
| "join sep [p] = p"
| "join sep (p # q # ps) = p @ sep @ join sep (q # ps)"

section \<open>Tokenizer\<close>

datatype TokenType = TAG_OPEN | TAG_CLOSE | TEXT | NEWLINE | EOF

record Token =
  ttype :: TokenType
  tvalue :: str
  line :: nat
  column :: nat
  tag_name :: "str option"
  attributes :: "(str \<times> str) list option"

text \<open>
  \<open>TAG_PATTERN = <(/?)(\w+)(\s+[^>]+)?>\<close>, matched at the current position.  The
  functions follow the backtracking matcher.  After the name, the optional group 3 is
  tried first: it needs a whitespace character, then at least one more character other
  than \<open>>\<close>, up to a \<open>>\<close>; whichever way \<open>\s+\<close> and \<open>[^>]+\<close> share the run, the
  group is the whole run before the first \<open>>\<close>.  Otherwise \<open>>\<close> must follow at once.
  The result is group 3 and the text after the match.
\<close>

definition tag_tail :: "str \<Rightarrow> (str option \<times> str) option" where
  "tag_tail s =
     (let r = takeWhile (\<lambda>c. c \<noteq> GT) s in
      if (case s of [] \<Rightarrow> False | c # _ \<Rightarrow> isspace c) \<and> 2 \<le> length r \<and> length r < length s
      then Some (Some r, drop (Suc (length r)) s)
      else (case s of [] \<Rightarrow> None | c # cs \<Rightarrow> if c = GT then Some (None, cs) else None))"

text \<open>\<open>(\w+)\<close> is greedy: one more word character is taken first, and the rest of
  the pattern is tried after the shorter name only when that fails.\<close>

fun tag_name_match :: "ucd \<Rightarrow> str \<Rightarrow> str \<Rightarrow> (str \<times> str option \<times> str) option" where
  "tag_name_match U acc [] = None"
| "tag_name_match U acc (c # cs) =
     (if re_w U c
      then (case tag_name_match U (acc @ [c]) cs of
              Some m \<Rightarrow> Some m
            | None \<Rightarrow> (case tag_tail cs of
                         Some (a, rest) \<Rightarrow> Some (acc @ [c], a, rest)
                       | None \<Rightarrow> None))
      else None)"

text \<open>The match: whether group 1 is non-empty, the name, group 3, the text after.\<close>

definition tag_match :: "ucd \<Rightarrow> str \<Rightarrow> (bool \<times> str \<times> str option \<times> str) option" where
  "tag_match U s =
     (case s of
        [] \<Rightarrow> None
      | c # r \<Rightarrow>
          if c \<noteq> LT then None
          else (case (case r of
                        [] \<Rightarrow> None
                      | d # r' \<Rightarrow> if d = SLASH then tag_name_match U [] r' else None) of
                  Some m \<Rightarrow> Some (True, m)
                | None \<Rightarrow> map_option (Pair False) (tag_name_match U [] r)))"

text \<open>
  \<open>ATTR_PATTERN = (\w+)="([^"]*)"\<close> matched at the head of the string (the key is
  the whole run of word characters, since \<open>=\<close> is none), and \<open>finditer\<close>: the matches
  from left to right, the search resuming after each match and else one character on.
\<close>

definition attr_at :: "ucd \<Rightarrow> str \<Rightarrow> (str \<times> str \<times> str) option" where
  "attr_at U s =
     (let k = takeWhile (re_w U) s in
      if k = [] then None
      else (case drop (length k) s of
              e # q # r \<Rightarrow>
                if e = EQUALS \<and> q = QUOTE
                then (let v = takeWhile (\<lambda>c. c \<noteq> QUOTE) r in
                      if length v < length r then Some (k, v, drop (Suc (length v)) r) else None)
                else None
            | _ \<Rightarrow> None))"

lemma drop_eq_Cons_length: "drop n s = x # r \<Longrightarrow> length r < length s"
proof -
  assume "drop n s = x # r"
  then have "length (drop n s) = Suc (length r)" by simp
  then show ?thesis by simp
qed

lemma attr_at_shorter: "attr_at U s = Some (k, v, r) \<Longrightarrow> length r < length s"
proof -
  assume a: "attr_at U s = Some (k, v, r)"
  then obtain r0 where d: "drop (length k) s = EQUALS # QUOTE # r0"
    and r: "r = drop (Suc (length (takeWhile (\<lambda>c. c \<noteq> QUOTE) r0))) r0"
    by (auto simp: attr_at_def Let_def split: list.splits if_splits)
  from d have "length (drop (length k) s) = Suc (Suc (length r0))" by simp
  then have "length r0 < length s" by simp
  moreover from r have "length r \<le> length r0" by simp
  ultimately show ?thesis by simp
qed

function find_attrs :: "ucd \<Rightarrow> str \<Rightarrow> (str \<times> str) list" where
  "find_attrs U [] = []"
| "find_attrs U (c # cs) =
     (case attr_at U (c # cs) of
        Some (k, v, r) \<Rightarrow> (k, v) # find_attrs U r
      | None \<Rightarrow> find_attrs U cs)"
  by pat_completeness auto
termination
  by (relation "measure (\<lambda>(U, s). length s)") (auto dest: attr_at_shorter)

text \<open>\<open>_parse_attributes\<close>: the dictionary is filled in match order, a repeated key
  keeping its place and taking the later value.\<close>

definition parse_attributes :: "ucd \<Rightarrow> str \<Rightarrow> (str \<times> str) list" where
  "parse_attributes U attrs_str =
     fold (\<lambda>(k, v) attrs. AList.update k v attrs) (find_attrs U attrs_str) []"

text \<open>\<open>_advance\<close> over the consumed characters: a line feed starts a new line, any
  other character moves one column on.\<close>

fun advance :: "str \<Rightarrow> nat \<times> nat \<Rightarrow> nat \<times> nat" where
  "advance [] p = p"
| "advance (x # xs) (l, c) = advance xs (if x = LF then (l + 1, 1) else (l, c + 1))"

definition at_tag :: "ucd \<Rightarrow> str \<Rightarrow> bool" where
  "at_tag U s \<longleftrightarrow> (case s of [] \<Rightarrow> False | c # _ \<Rightarrow> c = LT \<and> tag_match U s \<noteq> None)"

definition at_newline :: "str \<Rightarrow> bool" where
  "at_newline s \<longleftrightarrow> (case s of [] \<Rightarrow> False | c # _ \<Rightarrow> c = CR \<or> c = LF)"

text \<open>The readers return the token, the text left and the position after it.  The
  source's \<open>_read_tag\<close> raises \<open>ValueError\<close> where the pattern does not match; that is
  the \<open>None\<close> here.\<close>

definition read_tag :: "ucd \<Rightarrow> str \<Rightarrow> nat \<Rightarrow> nat \<Rightarrow> (Token \<times> str \<times> nat \<times> nat) option" where
  "read_tag U s l c =
     (case tag_match U s of
        None \<Rightarrow> None
      | Some (is_close, name, attrs_str, rest) \<Rightarrow>
          (let full_tag = take (length s - length rest) s;
               tok = \<lparr>ttype = (if is_close then TAG_CLOSE else TAG_OPEN), tvalue = full_tag,
                      line = l, column = c, tag_name = Some name,
                      attributes = (case attrs_str of
                                      None \<Rightarrow> None
                                    | Some a \<Rightarrow> Some (parse_attributes U a))\<rparr>;
               (l', c') = advance full_tag (l, c)
           in Some (tok, rest, l', c')))"

definition read_newline :: "str \<Rightarrow> nat \<Rightarrow> nat \<Rightarrow> Token \<times> str \<times> nat \<times> nat" where
  "read_newline s l c =
     (let tok = \<lparr>ttype = NEWLINE, tvalue = [LF], line = l, column = c,
                 tag_name = None, attributes = None\<rparr>;
          n = (case s of a # b # _ \<Rightarrow> if a = CR \<and> b = LF then 2 else 1 | _ \<Rightarrow> 1);
          (l', c') = advance (take n s) (l, c)
      in (tok, drop n s, l', c'))"

fun text_span :: "ucd \<Rightarrow> str \<Rightarrow> str \<times> str" where
  "text_span U [] = ([], [])"
| "text_span U (x # xs) =
     (if at_tag U (x # xs) \<or> at_newline (x # xs) then ([], x # xs)
      else (case text_span U xs of (t, r) \<Rightarrow> (x # t, r)))"

definition read_text :: "ucd \<Rightarrow> str \<Rightarrow> nat \<Rightarrow> nat \<Rightarrow> Token \<times> str \<times> nat \<times> nat" where
  "read_text U s l c =
     (case text_span U s of
        (text, rest) \<Rightarrow>
          (let (l', c') = advance text (l, c)
           in (\<lparr>ttype = TEXT, tvalue = text, line = l', column = c,
                tag_name = None, attributes = None\<rparr>, rest, l', c')))"

lemma tag_tail_shorter: "tag_tail s = Some (a, r) \<Longrightarrow> length r < length s"
  by (auto simp: tag_tail_def Let_def split: if_splits list.splits)

lemma tag_name_match_shorter:
  "tag_name_match U acc s = Some (n, a, r) \<Longrightarrow> length r < length s"
proof (induction s arbitrary: acc)
  case Nil
  then show ?case by simp
next
  case (Cons c cs)
  show ?case
  proof (cases "tag_name_match U (acc @ [c]) cs")
    case None
    with Cons.prems show ?thesis
      by (auto split: if_splits option.splits dest: tag_tail_shorter)
  next
    case (Some m)
    with Cons.prems have "tag_name_match U (acc @ [c]) cs = Some (n, a, r)"
      by (auto split: if_splits)
    from Cons.IH [OF this] show ?thesis by simp
  qed
qed

lemma tag_match_shorter: "tag_match U s = Some (b, n, a, r) \<Longrightarrow> length r < length s"
  by (auto simp: tag_match_def simp del: tag_name_match.simps
      split: list.splits if_splits option.splits dest!: tag_name_match_shorter)

lemma read_tag_shorter: "read_tag U s l c = Some (tok, r, l', c') \<Longrightarrow> length r < length s"
  by (auto simp: read_tag_def Let_def split: option.splits prod.splits
      dest: tag_match_shorter)

lemma read_newline_shorter:
  "read_newline (x # xs) l c = (tok, r, l', c') \<Longrightarrow> length r < Suc (length xs)"
  by (auto simp: read_newline_def Let_def split: list.splits prod.splits if_splits)

lemma text_span_length: "text_span U s = (t, r) \<Longrightarrow> length t + length r = length s"
  by (induction s arbitrary: t r) (auto split: if_splits prod.splits)

lemma read_text_shorter:
  "\<not> at_tag U (x # xs) \<Longrightarrow> \<not> at_newline (x # xs) \<Longrightarrow>
   read_text U (x # xs) l c = (tok, r, l', c') \<Longrightarrow> length r < Suc (length xs)"
  by (auto simp: read_text_def Let_def split: prod.splits dest: text_span_length)

text \<open>
  \<open>tokenize\<close>: the generator's tokens in order, ending with the end-of-input token.
  The generator is lazy, but reading a token has no effect beyond the cursor, so the
  tokens are the same when they are all computed first.  \<open>_read_tag\<close> is only called
  where the pattern matches, so its \<open>ValueError\<close> branch produces no token here.
\<close>

function tokenize_from :: "ucd \<Rightarrow> str \<Rightarrow> nat \<Rightarrow> nat \<Rightarrow> Token list" where
  "tokenize_from U [] l c =
     [\<lparr>ttype = EOF, tvalue = [], line = l, column = c, tag_name = None, attributes = None\<rparr>]"
| "tokenize_from U (x # xs) l c =
     (if at_tag U (x # xs)
      then (case read_tag U (x # xs) l c of
              Some (tok, s', l', c') \<Rightarrow> tok # tokenize_from U s' l' c'
            | None \<Rightarrow> [])
      else if at_newline (x # xs)
      then (case read_newline (x # xs) l c of
              (tok, s', l', c') \<Rightarrow> tok # tokenize_from U s' l' c')
      else (case read_text U (x # xs) l c of
              (tok, s', l', c') \<Rightarrow> tok # tokenize_from U s' l' c'))"
  by pat_completeness auto
termination
  by (relation "measure (\<lambda>(U, s, l, c). length s)")
    (auto dest: read_tag_shorter read_newline_shorter [OF sym] read_text_shorter [OF _ _ sym])

definition tokenize :: "ucd \<Rightarrow> str \<Rightarrow> Token list" where
  "tokenize U text = tokenize_from U text 1 1"


section \<open>Document tree\<close>

text \<open>
  The models of \<open>models.py\<close>.  A body element is a string, a \<open>Block\<close>, a
  \<open>Dictionary\<close> or a \<open>ListBlock\<close>; the constant \<open>kind\<close> field of each class is the
  constructor.  A Python \<open>dict\<close> keeps its keys in insertion order and a repeated
  key keeps its place: an association list filled by \<open>AList.update\<close>.
\<close>

datatype ContentNode =
    Str str
  | BlockNode Block
  | Dictionary "(str \<times> str) list"
  | ListBlock "Block list"
and Block =
    Block (number: "str option") (head: "str option") (body: "ContentNode list")

section \<open>Parser\<close>

text \<open>
  \<open>ParseError\<close> carries the message and the line and column of the token it was
  raised at.  \<open>ValueError\<close> is the built-in exception that \<open>str.split\<close> raises on
  an empty separator and that unpacking a list of the wrong length raises.
\<close>

datatype error = ParseError string nat nat | ValueError

text \<open>
  The parser's state is the token it looks at and the tokens not yet read: the list of
  the tokens from the current one on.  When the token stream is used up, \<open>_advance\<close>
  makes \<open>Token(EOF, "", 0, 0)\<close> the current token.
\<close>

definition exhausted :: Token where
  "exhausted = \<lparr>ttype = EOF, tvalue = [], line = 0, column = 0,
                 tag_name = None, attributes = None\<rparr>"

definition current :: "Token list \<Rightarrow> Token" where
  "current ts = (case ts of [] \<Rightarrow> exhausted | t # _ \<Rightarrow> t)"

definition is_opening_tag :: "string \<Rightarrow> Token \<Rightarrow> bool" where
  "is_opening_tag name t \<longleftrightarrow> ttype t = TAG_OPEN \<and> tag_name t = Some (lit name)"

definition is_closing_tag :: "string \<Rightarrow> Token \<Rightarrow> bool" where
  "is_closing_tag name t \<longleftrightarrow> ttype t = TAG_CLOSE \<and> tag_name t = Some (lit name)"

definition expect_tag :: "string \<Rightarrow> bool \<Rightarrow> Token list \<Rightarrow> error + Token list" where
  "expect_tag name is_closing ts =
     (let expected_type = (if is_closing then TAG_CLOSE else TAG_OPEN);
          tag_type = (if is_closing then ''closing'' else ''opening'');
          t = current ts
      in if ttype t \<noteq> expected_type \<or> tag_name t \<noteq> Some (lit name)
         then Inl (ParseError (''Expected '' @ tag_type @ '' '' @ name @ '' tag'')
                     (line t) (column t))
         else Inr (tl ts))"

text \<open>\<open>_flush_text\<close> changes both of its arguments; the model returns the buffer and
  the content after the call.\<close>

definition flush_text :: "str list \<Rightarrow> ContentNode list \<Rightarrow> str list \<times> ContentNode list" where
  "flush_text text_buffer content =
     (if text_buffer = [] then (text_buffer, content)
      else (let text = strip (concat text_buffer)
            in ([], if text \<noteq> []
                    then content @ map Str (filter (\<lambda>para. para \<noteq> [])
                                             (map strip (split_paragraphs text)))
                    else content)))"

text \<open>
  The text-flush rule as the specification words it, to compare \<open>_flush_text\<close> with:
  a paragraph break is a run of two or more line feeds, however long.
\<close>

function split_at_breaks :: "str \<Rightarrow> str list" where
  "split_at_breaks (a # b # cs) =
     (if a = LF \<and> b = LF then [] # split_at_breaks (dropWhile (\<lambda>c. c = LF) cs)
      else (case split_at_breaks (b # cs) of [] \<Rightarrow> [[a]] | p # ps \<Rightarrow> (a # p) # ps))"
| "split_at_breaks [] = [[]]"
| "split_at_breaks [a] = [[a]]"
  by pat_completeness auto
termination
  by (relation "measure length") (auto simp: less_Suc_eq_le intro: le_SucI length_dropWhile_le)

text \<open>The text nodes of a stripped text by that rule: the paragraphs, trimmed, without
  the empty ones.\<close>

definition paragraph_nodes :: "str \<Rightarrow> ContentNode list" where
  "paragraph_nodes text =
     map Str (filter (\<lambda>para. para \<noteq> []) (map strip (split_at_breaks text)))"

text \<open>The loop of \<open>_parse_head\<close>, from the token after the opening tag on.  With no
  token left the current token is the end-of-input token of \<open>_advance\<close>.\<close>

fun head_loop :: "Token list \<Rightarrow> str list \<Rightarrow> error + (str list \<times> Token list)" where
  "head_loop [] head_text =
     Inl (ParseError ''Unexpected EOF in head tag'' (line exhausted) (column exhausted))"
| "head_loop (t # ts) head_text =
     (if is_closing_tag ''head'' t then Inr (head_text, t # ts)
      else if ttype t = TEXT then head_loop ts (head_text @ [tvalue t])
      else if ttype t = EOF
      then Inl (ParseError ''Unexpected EOF in head tag'' (line t) (column t))
      else head_loop ts head_text)"

definition parse_head :: "Token list \<Rightarrow> error + (str \<times> Token list)" where
  "parse_head ts =
     (case expect_tag ''head'' False ts of
        Inl e \<Rightarrow> Inl e
      | Inr ts1 \<Rightarrow>
          (case head_loop ts1 [] of
             Inl e \<Rightarrow> Inl e
           | Inr (head_text, ts2) \<Rightarrow>
               (case expect_tag ''head'' True ts2 of
                  Inl e \<Rightarrow> Inl e
                | Inr ts3 \<Rightarrow> Inr (strip (concat head_text), ts3))))"

text \<open>An attribute of the opening tag, where the tag has attributes and this one is
  among them, and the default otherwise.\<close>

definition attribute_or :: "Token \<Rightarrow> string \<Rightarrow> str \<Rightarrow> str" where
  "attribute_or tag_token name dflt =
     (case attributes tag_token of
        None \<Rightarrow> dflt
      | Some attrs \<Rightarrow>
          if attrs \<noteq> [] then (case map_of attrs (lit name) of None \<Rightarrow> dflt | Some v \<Rightarrow> v)
          else dflt)"

text \<open>The loop of \<open>_parse_dict\<close>: the lines read so far and the pieces of the line
  being read.\<close>

fun dict_loop ::
  "Token list \<Rightarrow> str list \<Rightarrow> str list \<Rightarrow> error + (str list \<times> str list \<times> Token list)" where
  "dict_loop [] lines current_line =
     Inl (ParseError ''Unexpected EOF in dict tag'' (line exhausted) (column exhausted))"
| "dict_loop (t # ts) lines current_line =
     (if is_closing_tag ''dict'' t then Inr (lines, current_line, t # ts)
      else if ttype t = TEXT then dict_loop ts lines (current_line @ [tvalue t])
      else if ttype t = NEWLINE
      then (if current_line \<noteq> []
            then dict_loop ts (lines @ [strip (concat current_line)]) []
            else dict_loop ts lines current_line)
      else if ttype t = EOF
      then Inl (ParseError ''Unexpected EOF in dict tag'' (line t) (column t))
      else dict_loop ts lines current_line)"

text \<open>\<open>key, value = line.split(separator, 1)\<close>: \<open>split\<close> raises \<open>ValueError\<close> on the
  empty separator, and the unpacking raises it when the separator does not occur.\<close>

definition split_once :: "str \<Rightarrow> str \<Rightarrow> error + (str \<times> str)" where
  "split_once sep s =
     (if sep = [] then Inl ValueError
      else (case partition_at sep s of None \<Rightarrow> Inl ValueError | Some kv \<Rightarrow> Inr kv))"

fun dict_items :: "str \<Rightarrow> str list \<Rightarrow> (str \<times> str) list \<Rightarrow> error + (str \<times> str) list" where
  "dict_items separator [] items = Inr items"
| "dict_items separator (l # ls) items =
     (if l \<noteq> []
      then (if contains separator l
            then (case split_once separator l of
                    Inl e \<Rightarrow> Inl e
                  | Inr (key, val) \<Rightarrow>
                      dict_items separator ls (AList.update (strip key) (strip val) items))
            else dict_items separator ls (AList.update (strip l) [] items))
      else dict_items separator ls items)"

definition parse_dict :: "Token list \<Rightarrow> error + (ContentNode \<times> Token list)" where
  "parse_dict ts =
     (let tag_token = current ts in
      case expect_tag ''dict'' False ts of
        Inl e \<Rightarrow> Inl e
      | Inr ts1 \<Rightarrow>
          (let separator = attribute_or tag_token ''sep'' (lit '':'') in
           case dict_loop ts1 [] [] of
             Inl e \<Rightarrow> Inl e
           | Inr (lines0, current_line, ts2) \<Rightarrow>
               (let lines = (if current_line \<noteq> [] then lines0 @ [strip (concat current_line)]
                             else lines0)
                in case dict_items separator lines [] of
                     Inl e \<Rightarrow> Inl e
                   | Inr items \<Rightarrow>
                       (case expect_tag ''dict'' True ts2 of
                          Inl e \<Rightarrow> Inl e
                        | Inr ts3 \<Rightarrow> Inr (Dictionary items, ts3)))))"



text \<open>The loop of \<open>_parse_list\<close>, which collects the values of the tokens up to the
  closing tag.\<close>

fun list_loop :: "Token list \<Rightarrow> str list \<Rightarrow> error + (str list \<times> Token list)" where
  "list_loop [] content_parts =
     Inl (ParseError ''Unexpected EOF in list tag'' (line exhausted) (column exhausted))"
| "list_loop (t # ts) content_parts =
     (if is_closing_tag ''list'' t then Inr (content_parts, t # ts)
      else if ttype t = EOF
      then Inl (ParseError ''Unexpected EOF in list tag'' (line t) (column t))
      else if ttype t = TEXT then list_loop ts (content_parts @ [tvalue t])
      else if ttype t = NEWLINE then list_loop ts (content_parts @ [[LF]])
      else if ttype t = TAG_OPEN then list_loop ts (content_parts @ [tvalue t])
      else if ttype t = TAG_CLOSE then list_loop ts (content_parts @ [tvalue t])
      else list_loop ts content_parts)"

section \<open>List lines\<close>

text \<open>
  The pattern \<open>^(\d+(?:\.\d+)*)\.\s+(.*)$\<close> of the ordered list, on a line without
  line feed (the lines are pieces of \<open>split("\n")\<close>).  \<open>number_tail\<close> matches
  \<open>(?:\.\d+)*\.\s+(.*)$\<close> as the backtracking matcher does: after a dot, one more
  iteration of the group is tried first, with its whole run of digits (after a shorter
  run a digit would have to match a dot), and the final dot with its whitespace is
  tried when that fails.  It returns the rest of group 1 and group 2.
\<close>

function number_tail :: "ucd \<Rightarrow> str \<Rightarrow> (str \<times> str) option" where
  "number_tail U [] = None"
| "number_tail U (c # r) =
     (if c \<noteq> DOT then None
      else (let ds = takeWhile (re_d U) r in
            case (if ds = [] then None else number_tail U (drop (length ds) r)) of
              Some (num, text) \<Rightarrow> Some (DOT # ds @ num, text)
            | None \<Rightarrow>
                (case r of
                   [] \<Rightarrow> None
                 | w # _ \<Rightarrow> if isspace w then Some ([], dropWhile isspace r) else None)))"
  by pat_completeness auto
termination
  by (relation "measure (\<lambda>(U, s). length s)") auto

definition match_item :: "ucd \<Rightarrow> str \<Rightarrow> (str \<times> str) option" where
  "match_item U l =
     (let ds = takeWhile (re_d U) l in
      if ds = [] then None
      else (case number_tail U (drop (length ds) l) of
              None \<Rightarrow> None
            | Some (num, text) \<Rightarrow> Some (ds @ num, text)))"

text \<open>
  \<open>_process_ordered_list\<close> appends to the body of a \<open>Block\<close> that is already in the
  tree, through the reference it keeps on its stack.  The model has a store for the
  \<open>Block\<close> objects the function creates: an address is the number of objects created
  before.  An item of a list is a reference into the store, or a \<open>Block\<close> that came
  with the body of an embedded document.
\<close>

datatype hitem = Ref nat | Val Block

datatype hnode = HStr str | HBlock Block | HDict "(str \<times> str) list" | HList "hitem list"

record item_obj =
  obj_number :: str
  obj_head :: str
  obj_body :: "hnode list"

record ordered_state =
  heap :: "nat \<Rightarrow> item_obj"
  allocated :: nat
  root_items :: "nat list"
  stack :: "(str \<times> nat) list"

definition init_state :: ordered_state where
  "init_state = \<lparr>heap = (\<lambda>a. \<lparr>obj_number = [], obj_head = [], obj_body = []\<rparr>),
                  allocated = 0, root_items = [], stack = []\<rparr>"

text \<open>\<open>while stack and stack[-1][0].count(".") >= level: stack.pop()\<close>.\<close>

function pop_levels :: "nat \<Rightarrow> (str \<times> nat) list \<Rightarrow> (str \<times> nat) list" where
  "pop_levels level stk =
     (if stk \<noteq> [] \<and> count_list (fst (last stk)) DOT \<ge> level
      then pop_levels level (butlast stk) else stk)"
  by pat_completeness auto
termination
  by (relation "measure (\<lambda>(level, stk). length stk)") auto

declare pop_levels.simps [simp del]

text \<open>The item goes to the \<open>ListBlock\<close> that ends the parent's body, or to a new
  one at the end of the body.\<close>

definition attach :: "hitem \<Rightarrow> hnode list \<Rightarrow> hnode list" where
  "attach item pbody =
     (if pbody \<noteq> [] \<and> (case last pbody of HList _ \<Rightarrow> True | _ \<Rightarrow> False)
      then butlast pbody @ [case last pbody of HList xs \<Rightarrow> HList (xs @ [item]) | n \<Rightarrow> n]
      else pbody @ [HList [item]])"

definition set_body :: "nat \<Rightarrow> hnode list \<Rightarrow> (nat \<Rightarrow> item_obj) \<Rightarrow> (nat \<Rightarrow> item_obj)" where
  "set_body a b h = h(a := (h a)\<lparr>obj_body := b\<rparr>)"

text \<open>The branch of a line that matches the pattern.\<close>

definition add_item :: "str \<Rightarrow> str \<Rightarrow> ordered_state \<Rightarrow> ordered_state" where
  "add_item num text st =
     (let item = allocated st;
          h1 = (heap st)(item := \<lparr>obj_number = num, obj_head = text, obj_body = []\<rparr>);
          level = count_list num DOT;
          stack1 = pop_levels level (stack st)
      in if stack1 = []
         then \<lparr>heap = h1, allocated = Suc item, root_items = root_items st @ [item],
               stack = stack1 @ [(num, item)]\<rparr>
         else (let parent = snd (last stack1)
               in \<lparr>heap = set_body parent (attach (Ref item) (obj_body (h1 parent))) h1,
                   allocated = Suc item, root_items = root_items st,
                   stack = stack1 @ [(num, item)]\<rparr>))"

text \<open>\<open>stack[-1][1].body.extend(nodes)\<close>, for a stack that is not empty.\<close>

definition extend_top :: "hnode list \<Rightarrow> ordered_state \<Rightarrow> ordered_state" where
  "extend_top nodes st =
     (let top = snd (last (stack st))
      in st\<lparr>heap := set_body top (obj_body (heap st top) @ nodes) (heap st)\<rparr>)"

fun hnode_of :: "ContentNode \<Rightarrow> hnode" where
  "hnode_of (Str s) = HStr s"
| "hnode_of (BlockNode b) = HBlock b"
| "hnode_of (Dictionary d) = HDict d"
| "hnode_of (ListBlock bs) = HList (map Val bs)"

text \<open>The lines of an embedded dictionary: \<open>dict_lines\<close> is \<open>init @ [lst]\<close>, and
  lines are added until the last one contains the closing tag.\<close>

fun collect_dict :: "str list \<Rightarrow> str \<Rightarrow> str list \<Rightarrow> str list \<times> str list" where
  "collect_dict init lst [] = (init @ [lst], [])"
| "collect_dict init lst (l # ls) =
     (if \<not> contains (lit ''</dict>'') lst then collect_dict (init @ [lst]) l ls
      else (init @ [lst], l # ls))"

text \<open>
  The tree behind a reference, read from the store when the function returns.  A
  \<open>Block\<close> created by the function has a number and a head.  The depth of the
  reading is bounded; \<open>None\<close> is a store that is deeper than the bound.
\<close>

fun resolve_item :: "nat \<Rightarrow> (nat \<Rightarrow> item_obj) \<Rightarrow> hitem \<Rightarrow> Block option"
and resolve_node :: "nat \<Rightarrow> (nat \<Rightarrow> item_obj) \<Rightarrow> hnode \<Rightarrow> ContentNode option" where
  "resolve_item 0 h i = None"
| "resolve_item (Suc k) h (Val b) = Some b"
| "resolve_item (Suc k) h (Ref a) =
     (case those (map (resolve_node k h) (obj_body (h a))) of
        None \<Rightarrow> None
      | Some b \<Rightarrow> Some (Block (Some (obj_number (h a))) (Some (obj_head (h a))) b))"
| "resolve_node 0 h n = None"
| "resolve_node (Suc k) h (HStr s) = Some (Str s)"
| "resolve_node (Suc k) h (HBlock b) = Some (BlockNode b)"
| "resolve_node (Suc k) h (HDict d) = Some (Dictionary d)"
| "resolve_node (Suc k) h (HList xs) = map_option ListBlock (those (map (resolve_item k h) xs))"

definition finish_ordered :: "ordered_state \<Rightarrow> ContentNode option" where
  "finish_ordered st =
     map_option ListBlock
       (those (map (resolve_item (2 * allocated st + 2) (heap st)) (map Ref (root_items st))))"

text \<open>
  \<open>_process_unordered_list\<close>.  The marker in the source file is the four characters
  U+00E2, U+20AC, U+00A2 and a space; the text of an item starts after the first two
  characters of the stripped line.
\<close>

definition bullet_marker :: str where
  "bullet_marker = [226, 8364, 162, SPC]"

definition add_sub_item :: "Block \<Rightarrow> Block \<Rightarrow> Block" where
  "add_sub_item sub_item item =
     (let b = body item in
      if b \<noteq> [] \<and> (case last b of ListBlock _ \<Rightarrow> True | _ \<Rightarrow> False)
      then Block (number item) (head item)
             (butlast b @ [case last b of ListBlock xs \<Rightarrow> ListBlock (xs @ [sub_item]) | n \<Rightarrow> n])
      else Block (number item) (head item) (b @ [ListBlock [sub_item]]))"

fun unordered_loop :: "str list \<Rightarrow> Block list \<Rightarrow> Block option \<Rightarrow> Block list \<times> Block option" where
  "unordered_loop [] items current_item = (items, current_item)"
| "unordered_loop (l # ls) items current_item =
     (if strip l = [] then unordered_loop ls items current_item
      else if prefix bullet_marker (strip l)
      then unordered_loop ls
             (case current_item of None \<Rightarrow> items | Some it \<Rightarrow> items @ [it])
             (Some (Block None (Some (strip (drop 2 (strip l)))) []))
      else if prefix (lit ''o '') (strip l) \<and> current_item \<noteq> None
      then unordered_loop ls items
             (map_option (add_sub_item (Block None (Some (strip (drop 2 (strip l)))) []))
                current_item)
      else (case current_item of
              Some it \<Rightarrow>
                unordered_loop ls items
                  (Some (Block (number it) (head it) (body it @ [Str (strip l)])))
            | None \<Rightarrow> unordered_loop ls items current_item))"

definition process_unordered_list :: "str list \<Rightarrow> ContentNode" where
  "process_unordered_list lines =
     (case unordered_loop lines [] None of
        (items, None) \<Rightarrow> ListBlock items
      | (items, Some it) \<Rightarrow> ListBlock (items @ [it]))"

section \<open>Recursive descent\<close>

text \<open>
  \<open>_parse_content\<close>, \<open>_parse_block\<close>, \<open>_parse_list\<close>, \<open>_process_ordered_list\<close>
  (which parses an embedded dictionary with a parser of its own) and the method
  \<open>Parser.parse\<close> call each other.  Each function takes the number of nested calls
  and loop rounds it may still make; \<open>None\<close> is the run that needs more.  A result
  is \<open>Inl\<close> the exception raised or \<open>Inr\<close> the value returned, with the tokens
  from the current one on where the parser goes on reading.  \<open>_process_list_lines\<close>
  is the choice between the two kinds of list at the end of \<open>parse_list\<close>.
\<close>

function (sequential) parse_content ::
  "nat \<Rightarrow> ucd \<Rightarrow> string option \<Rightarrow> Token list \<Rightarrow> ContentNode list \<Rightarrow> str list \<Rightarrow>
   (error + ContentNode list \<times> Token list) option"
and parse_block :: "nat \<Rightarrow> ucd \<Rightarrow> Token list \<Rightarrow> (error + Block \<times> Token list) option"
and parse_list :: "nat \<Rightarrow> ucd \<Rightarrow> Token list \<Rightarrow> (error + ContentNode \<times> Token list) option"
and process_ordered_list ::
  "nat \<Rightarrow> ucd \<Rightarrow> str list \<Rightarrow> ordered_state \<Rightarrow> (error + ContentNode) option"
and parser_parse :: "nat \<Rightarrow> ucd \<Rightarrow> Token list \<Rightarrow> (error + Block) option" where
  "parse_content 0 U until_tag ts content current_text = None"
| "parse_content (Suc n) U until_tag ts content current_text =
     (let t = current ts in
      if ttype t = EOF then Some (Inr (snd (flush_text current_text content), ts))
      else if (case until_tag of None \<Rightarrow> False | Some u \<Rightarrow> u \<noteq> [] \<and> is_closing_tag u t)
      then Some (Inr (snd (flush_text current_text content), ts))
      else if is_opening_tag ''head'' t
      then Some (Inl (ParseError ''Unexpected head tag in content'' (line t) (column t)))
      else if is_opening_tag ''block'' t
      then (case flush_text current_text content of
              (text1, content1) \<Rightarrow>
                (case parse_block n U ts of
                   None \<Rightarrow> None
                 | Some (Inl e) \<Rightarrow> Some (Inl e)
                 | Some (Inr (b, ts1)) \<Rightarrow>
                     parse_content n U until_tag ts1 (content1 @ [BlockNode b]) text1))
      else if is_opening_tag ''dict'' t
      then (case flush_text current_text content of
              (text1, content1) \<Rightarrow>
                (case parse_dict ts of
                   Inl e \<Rightarrow> Some (Inl e)
                 | Inr (d, ts1) \<Rightarrow> parse_content n U until_tag ts1 (content1 @ [d]) text1))
      else if is_opening_tag ''list'' t
      then (case flush_text current_text content of
              (text1, content1) \<Rightarrow>
                (case parse_list n U ts of
                   None \<Rightarrow> None
                 | Some (Inl e) \<Rightarrow> Some (Inl e)
                 | Some (Inr (l, ts1)) \<Rightarrow>
                     parse_content n U until_tag ts1 (content1 @ [l]) text1))
      else if ttype t = TEXT
      then parse_content n U until_tag (tl ts) content (current_text @ [tvalue t])
      else if ttype t = NEWLINE
      then parse_content n U until_tag (tl ts) content (current_text @ [[LF]])
      else parse_content n U until_tag (tl ts) content current_text)"
| "parse_block 0 U ts = None"
| "parse_block (Suc n) U ts =
     (case expect_tag ''block'' False ts of
        Inl e \<Rightarrow> Some (Inl e)
      | Inr ts1 \<Rightarrow>
          (let ts2 = dropWhile (\<lambda>t. ttype t = NEWLINE) ts1 in
           case (if is_opening_tag ''head'' (current ts2)
                 then (case parse_head ts2 of
                         Inl e \<Rightarrow> Inl e
                       | Inr (h, ts3) \<Rightarrow> Inr (Some h, ts3))
                 else Inr (None, ts2)) of
             Inl e \<Rightarrow> Some (Inl e)
           | Inr (h, ts3) \<Rightarrow>
               (case parse_content n U (Some ''block'') ts3 [] [] of
                  None \<Rightarrow> None
                | Some (Inl e) \<Rightarrow> Some (Inl e)
                | Some (Inr (b, ts4)) \<Rightarrow>
                    (case expect_tag ''block'' True ts4 of
                       Inl e \<Rightarrow> Some (Inl e)
                     | Inr ts5 \<Rightarrow> Some (Inr (Block None h b, ts5))))))"
| "parse_list 0 U ts = None"
| "parse_list (Suc n) U ts =
     (let tag_token = current ts in
      case expect_tag ''list'' False ts of
        Inl e \<Rightarrow> Some (Inl e)
      | Inr ts1 \<Rightarrow>
          (let list_kind = attribute_or tag_token ''kind'' (lit ''.'') in
           case list_loop ts1 [] of
             Inl e \<Rightarrow> Some (Inl e)
           | Inr (content_parts, ts2) \<Rightarrow>
               (case expect_tag ''list'' True ts2 of
                  Inl e \<Rightarrow> Some (Inl e)
                | Inr ts3 \<Rightarrow>
                    (let lines = split_lines (strip (concat content_parts)) in
                     case (if list_kind = lit ''.'' then process_ordered_list n U lines init_state
                           else if list_kind = lit ''*''
                           then Some (Inr (process_unordered_list lines))
                           else Some (Inr (ListBlock []))) of
                       None \<Rightarrow> None
                     | Some (Inl e) \<Rightarrow> Some (Inl e)
                     | Some (Inr l) \<Rightarrow> Some (Inr (l, ts3))))))"
| "process_ordered_list 0 U lines st = None"
| "process_ordered_list (Suc n) U [] st =
     (case finish_ordered st of None \<Rightarrow> None | Some l \<Rightarrow> Some (Inr l))"
| "process_ordered_list (Suc n) U (raw # rest) st =
     (let l = strip raw in
      if l = [] then process_ordered_list n U rest st
      else (case match_item U l of
              Some (num, text) \<Rightarrow> process_ordered_list n U rest (add_item num text st)
            | None \<Rightarrow>
                if stack st \<noteq> []
                then (if contains (lit ''<dict'') l
                      then (case collect_dict [] l rest of
                              (dict_lines, rest1) \<Rightarrow>
                                (case parser_parse n U (tokenize U (join [LF] dict_lines)) of
                                   None \<Rightarrow> None
                                 | Some (Inl e) \<Rightarrow> Some (Inl e)
                                 | Some (Inr parsed) \<Rightarrow>
                                     process_ordered_list n U rest1
                                       (if body parsed \<noteq> []
                                        then extend_top (map hnode_of (body parsed)) st
                                        else st)))
                      else process_ordered_list n U rest (extend_top [HStr l] st))
                else process_ordered_list n U rest st))"
| "parser_parse 0 U ts = None"
| "parser_parse (Suc n) U ts =
     (case (if is_opening_tag ''head'' (current ts)
            then (case parse_head ts of
                    Inl e \<Rightarrow> Inl e
                  | Inr (h, ts1) \<Rightarrow> Inr (Some h, ts1))
            else Inr (None, ts)) of
        Inl e \<Rightarrow> Some (Inl e)
      | Inr (h, ts1) \<Rightarrow>
          (case parse_content n U None ts1 [] [] of
             None \<Rightarrow> None
           | Some (Inl e) \<Rightarrow> Some (Inl e)
           | Some (Inr (b, ts2)) \<Rightarrow> Some (Inr (Block None h b))))"

  by pat_completeness auto
termination
  by (relation "measure (\<lambda>x. case x of
        Inl (Inl (n, _)) \<Rightarrow> n
      | Inl (Inr (n, _)) \<Rightarrow> n
      | Inr (Inl (n, _)) \<Rightarrow> n
      | Inr (Inr (Inl (n, _))) \<Rightarrow> n
      | Inr (Inr (Inr (n, _))) \<Rightarrow> n)")
    (simp_all only: wf_measure in_measure sum.case prod.case lessI)

text \<open>The function \<open>parse\<close> of the module.\<close>

definition parse :: "nat \<Rightarrow> ucd \<Rightarrow> str \<Rightarrow> (error + Block) option" where
  "parse n U text = parser_parse n U (tokenize U text)"

section \<open>Exceptions and token positions\<close>

text \<open>The messages of the \<open>ParseError\<close>s that the parser raises: the four fixed ones,
  and those of \<open>_expect_tag\<close> for the two kinds and the four tag names it is called
  with.\<close>

definition parse_error_messages :: "string list" where
  "parse_error_messages =
     [''Unexpected head tag in content'', ''Unexpected EOF in head tag'',
      ''Unexpected EOF in dict tag'', ''Unexpected EOF in list tag''] @
     concat (map (\<lambda>tag_type. map (\<lambda>name. ''Expected '' @ tag_type @ '' '' @ name @ '' tag'')
                                [''head'', ''block'', ''dict'', ''list''])
               [''opening'', ''closing''])"

text \<open>An exception with one of these messages at a position counted from 1, or the
  exception of \<open>str.split\<close>.\<close>

definition listed_error :: "error \<Rightarrow> bool" where
  "listed_error e =
     (case e of
        ValueError \<Rightarrow> True
      | ParseError msg l c \<Rightarrow> msg \<in> set parse_error_messages \<and> 1 \<le> l \<and> 1 \<le> c)"

text \<open>A token list as the tokenizer makes it: it ends with the end-of-input token, and
  lines and columns count from 1.\<close>

definition wf_tokens :: "Token list \<Rightarrow> bool" where
  "wf_tokens ts \<longleftrightarrow>
     ts \<noteq> [] \<and> ttype (last ts) = EOF \<and> (\<forall>t\<in>set ts. 1 \<le> line t \<and> 1 \<le> column t)"

text \<open>A result of a parsing function that is such an exception, or leaves such a token
  list.\<close>

definition result_ok :: "error + ('a \<times> Token list) \<Rightarrow> bool" where
  "result_ok r = (case r of Inl e \<Rightarrow> listed_error e | Inr (x, ts) \<Rightarrow> wf_tokens ts)"

section \<open>Evaluation\<close>

text \<open>The equations of the recursive descent for a numeral bound, and the definitions
  that a run on a concrete text unfolds.\<close>

lemmas parse_content_numeral [simp] =
  parse_content.simps(2) [of "pred_numeral k" for k, folded numeral_eq_Suc]
lemmas parse_block_numeral [simp] =
  parse_block.simps(2) [of "pred_numeral k" for k, folded numeral_eq_Suc]
lemmas parse_list_numeral [simp] =
  parse_list.simps(2) [of "pred_numeral k" for k, folded numeral_eq_Suc]
lemmas process_ordered_list_numeral [simp] =
  process_ordered_list.simps(2,3) [of "pred_numeral k" for k, folded numeral_eq_Suc]
lemmas parser_parse_numeral [simp] =
  parser_parse.simps(2) [of "pred_numeral k" for k, folded numeral_eq_Suc]
lemmas resolve_item_numeral [simp] =
  resolve_item.simps(2,3) [of "pred_numeral k" for k, folded numeral_eq_Suc]
lemmas resolve_node_numeral [simp] =
  resolve_node.simps(2-5) [of "pred_numeral k" for k, folded numeral_eq_Suc]

lemmas tokenizer_defs =
  lit_def tokenize_def at_tag_def tag_match_def re_w_def tag_tail_def isspace_def read_tag_def
  at_newline_def read_text_def read_newline_def Let_def parse_attributes_def attr_at_def

lemmas parser_defs =
  parse_def expect_tag_def current_def is_closing_tag_def is_opening_tag_def flush_text_def
  strip_def parse_head_def attribute_or_def parse_dict_def split_once_def contains_def
  exhausted_def match_item_def re_d_def add_item_def extend_top_def set_body_def attach_def
  finish_ordered_def init_state_def process_unordered_list_def bullet_marker_def
  add_sub_item_def pop_levels.simps

section \<open>The tokenizer at a lone carriage return\<close>

















section \<open>Exceptions other than ParseError\<close>

text \<open>
  C5.  The claim that no exception other than \<open>ParseError\<close> escapes the parse fails on
  a dictionary whose \<open>sep\<close> attribute is the empty string: every line contains the
  empty separator, and \<open>line.split("", 1)\<close> raises \<open>ValueError\<close>.  The parse of
  \<open><dict sep="">K</dict>\<close> ends with that exception.
\<close>

theorem empty_separator_raises_ValueError:
  \<open>parse 20 U (lit ''<dict sep="">K</dict>'') = Some (Inl ValueError)\<close>
  by (simp add: tokenizer_defs parser_defs cong: prod.case_cong_weak)

section \<open>Unordered lists\<close>

text \<open>
  C6.  The claim that a line beginning with the bullet glyph and a space starts an item
  whose head is the text after the marker fails on the code.  The marker the source
  compares with is four characters long (U+00E2, U+20AC, U+00A2, space) while the head
  is taken after two characters.  A line that begins with the bullet U+2022, as in the
  repository's tests, starts no item, and a line that begins with the marker of the
  source gets a head that still holds the marker's last two characters.
\<close>

theorem bullet_line_head:
  \<open>parse 20 U (lit ''<list kind="*">\<newline>'' @ [8226] @ lit '' First\<newline></list>'')
     = Some (Inr (Block None None [ListBlock []])) \<and>
   parse 20 U (lit ''<list kind="*">\<newline>'' @ bullet_marker @ lit ''First\<newline></list>'')
     = Some (Inr (Block None None
         [ListBlock [Block None (Some ([162, SPC] @ lit ''First'')) []]]))\<close>
  by (simp add: tokenizer_defs parser_defs cong: prod.case_cong_weak)

section \<open>Dictionary entries\<close>












text \<open>
  C3.  The separator is the \<open>sep\<close> attribute of the opening tag where there is one, and
  each line that is not empty is split at the first occurrence of the separator.  With
  the separator \<open>"-"\<close> that is what the region \<open>K - V\<close> gives.  With the empty
  separator, which occurs in every line, the split \<open>line.split("", 1)\<close> raises
  \<open>ValueError\<close> and the region gives no dictionary at all.
\<close>

theorem empty_separator_splits_no_line:
  \<open>parse 20 U (lit ''<dict sep="-">\<newline>K - V\<newline></dict>'')
     = Some (Inr (Block None None [Dictionary [(lit ''K'', lit ''V'')]])) \<and>
   parse 20 U (lit ''<dict sep="">\<newline>K - V\<newline></dict>'') = Some (Inl ValueError)\<close>
  by (simp add: tokenizer_defs parser_defs cong: prod.case_cong_weak)

section \<open>Paragraphs\<close>

text \<open>\<open>split("\n\n")\<close> cuts a longer run of line feeds into several breaks and may
  leave one line feed over; the pieces in between are empty and the line feed is
  stripped, so that the paragraphs kept are those between the runs.\<close>

lemma strip_LF: "strip (LF # p) = strip p"
  by (simp add: strip_def isspace_def)

lemma strip_Nil: "strip [] = []"
  by (simp add: strip_def)

lemma paragraphs_leading_LF:
  "filter (\<lambda>p. p \<noteq> []) (map strip (split_paragraphs (LF # cs))) =
   filter (\<lambda>p. p \<noteq> []) (map strip (split_paragraphs cs))"
proof (induction cs)
  case Nil
  show ?case by (simp add: strip_def isspace_def)
next
  case (Cons c cs)
  show ?case
  proof (cases "c = LF")
    case True
    with Cons show ?thesis by (simp add: strip_Nil)
  next
    case False
    then show ?thesis by (cases "split_paragraphs (c # cs)") (simp_all add: strip_LF strip_def isspace_def)
  qed
qed

lemma paragraphs_leading_LFs:
  "filter (\<lambda>p. p \<noteq> []) (map strip (split_paragraphs (dropWhile (\<lambda>c. c = LF) cs))) =
   filter (\<lambda>p. p \<noteq> []) (map strip (split_paragraphs cs))"
proof (induction cs)
  case Nil
  show ?case by simp
next
  case (Cons c cs)
  show ?case
  proof (cases "c = LF")
    case True
    then have "dropWhile (\<lambda>c. c = LF) (c # cs) = dropWhile (\<lambda>c. c = LF) cs" by simp
    with Cons True show ?thesis by (simp only: paragraphs_leading_LF)
  next
    case False
    then show ?thesis by simp
  qed
qed

lemma split_paragraphs_breaks:
  "\<exists>p ps ps'. split_paragraphs s = p # ps \<and> split_at_breaks s = p # ps' \<and>
     filter (\<lambda>p. p \<noteq> []) (map strip ps) = filter (\<lambda>p. p \<noteq> []) (map strip ps')"
proof (induction s rule: split_at_breaks.induct)
  case (1 a b cs)
  show ?case
  proof (cases "a = LF \<and> b = LF")
    case True
    from 1(1) [OF True] obtain p ps ps' where
      e: "split_paragraphs (dropWhile (\<lambda>c. c = LF) cs) = p # ps"
         "split_at_breaks (dropWhile (\<lambda>c. c = LF) cs) = p # ps'"
         "filter (\<lambda>p. p \<noteq> []) (map strip ps) = filter (\<lambda>p. p \<noteq> []) (map strip ps')"
      by blast
    have "filter (\<lambda>p. p \<noteq> []) (map strip (split_paragraphs cs)) =
          filter (\<lambda>p. p \<noteq> []) (map strip (split_paragraphs (dropWhile (\<lambda>c. c = LF) cs)))"
      by (simp only: paragraphs_leading_LFs)
    also have "\<dots> = filter (\<lambda>p. p \<noteq> []) (map strip (split_at_breaks (dropWhile (\<lambda>c. c = LF) cs)))"
      using e by simp
    finally show ?thesis using True by simp
  next
    case False
    from 1(2) [OF False] obtain p ps ps' where
      "split_paragraphs (b # cs) = p # ps" "split_at_breaks (b # cs) = p # ps'"
      "filter (\<lambda>p. p \<noteq> []) (map strip ps) = filter (\<lambda>p. p \<noteq> []) (map strip ps')"
      by blast
    with False show ?thesis by auto
  qed
next
  case 2
  show ?case by simp
next
  case (3 a)
  show ?case by simp
qed

lemma paragraphs_eq_breaks:
  "filter (\<lambda>p. p \<noteq> []) (map strip (split_paragraphs s)) =
   filter (\<lambda>p. p \<noteq> []) (map strip (split_at_breaks s))"
  using split_paragraphs_breaks [of s] by auto

lemma strip_whitespace: "list_all isspace s \<Longrightarrow> strip s = []"
  by (induction s) (simp_all add: strip_def)

text \<open>
  C2.  \<open>_flush_text\<close> empties the buffer and appends the text nodes of the
  specification's rule for the stripped concatenation of the buffer: one node for each
  trimmed paragraph that is not empty, in order, the paragraphs being separated by runs
  of two or more line feeds.  A buffer that is empty or holds only whitespace appends
  nothing.  The text \<open>"Line 1\nLine 2\n\nLine 3"\<close> is parsed into the two text nodes
  \<open>"Line 1\nLine 2"\<close> and \<open>"Line 3"\<close>.
\<close>

theorem flush_text_paragraphs:
  \<open>flush_text text_buffer content =
     ([], content @ paragraph_nodes (strip (concat text_buffer))) \<and>
   (list_all isspace (concat text_buffer) \<longrightarrow> flush_text text_buffer content = ([], content)) \<and>
   parse 20 U (lit ''Line 1\<newline>Line 2\<newline>\<newline>Line 3'') =
     Some (Inr (Block None None [Str (lit ''Line 1\<newline>Line 2''), Str (lit ''Line 3'')]))\<close>
proof (intro conjI impI)
  show "flush_text text_buffer content =
     ([], content @ paragraph_nodes (strip (concat text_buffer)))"
    by (simp add: flush_text_def paragraph_nodes_def paragraphs_eq_breaks strip_Nil Let_def)
  show "flush_text text_buffer content = ([], content)" if "list_all isspace (concat text_buffer)"
    using strip_whitespace [OF that] by (simp add: flush_text_def Let_def)
  show \<open>parse 20 U (lit ''Line 1\<newline>Line 2\<newline>\<newline>Line 3'') =
     Some (Inr (Block None None [Str (lit ''Line 1\<newline>Line 2''), Str (lit ''Line 3'')]))\<close>
    by (simp add: tokenizer_defs parser_defs cong: prod.case_cong_weak)
qed

text \<open>A buffer of whitespace after a text node, and a buffer with a run of three line
  feeds.\<close>

theorem flush_text_paragraphs_witness:
  \<open>list_all isspace (concat [lit '' '', [LF]]) \<and>
   flush_text [lit '' '', [LF]] [Str (lit ''a'')] = ([], [Str (lit ''a'')]) \<and>
   flush_text [lit ''a'', [LF], [LF], [LF], lit ''b '', [LF]] [] =
     ([], paragraph_nodes (lit ''a\<newline>\<newline>\<newline>b'')) \<and>
   paragraph_nodes (lit ''a\<newline>\<newline>\<newline>b'') = [Str (lit ''a''), Str (lit ''b'')]\<close>
proof -
  have h: "list_all isspace (concat [lit '' '', [LF]])" by (simp add: lit_def isspace_def)
  have s: "strip (concat [lit ''a'', [LF], [LF], [LF], lit ''b '', [LF]]) = lit ''a\<newline>\<newline>\<newline>b''"
    by (simp add: lit_def strip_def isspace_def)
  have p: "paragraph_nodes (lit ''a\<newline>\<newline>\<newline>b'') = [Str (lit ''a''), Str (lit ''b'')]"
    by (simp add: paragraph_nodes_def lit_def strip_def isspace_def)
  from flush_text_paragraphs [of "[lit '' '', [LF]]" "[Str (lit ''a'')]" ascii_only] h
  have a: "flush_text [lit '' '', [LF]] [Str (lit ''a'')] = ([], [Str (lit ''a'')])" by blast
  from flush_text_paragraphs [of "[lit ''a'', [LF], [LF], [LF], lit ''b '', [LF]]" "[]" ascii_only]
  have b: "flush_text [lit ''a'', [LF], [LF], [LF], lit ''b '', [LF]] [] =
     ([], paragraph_nodes (lit ''a\<newline>\<newline>\<newline>b''))" unfolding s by simp
  from h a b p show ?thesis by blast
qed

section \<open>The conditions of a ParseError\<close>









text \<open>The functions that read one region raise the listed exceptions only and leave a
  token list of the same kind.\<close>

lemma result_ok_simps [simp]:
  "result_ok (Inl e) = listed_error e"
  "result_ok (Inr (x, ts)) = wf_tokens ts"
  by (simp_all add: result_ok_def)

lemma listed_ValueError [simp]: "listed_error ValueError"
  by (simp add: listed_error_def)



















section \<open>Determinism\<close>















end
